theory Spec2Isabelle
  imports Main
begin

section \<open>The embedding service (python-services/embedding-service/app/main.py)\<close>

subsection \<open>Values of the external libraries\<close>

text \<open>
  An instance of Python's \<open>Exception\<close> class, the ones an \<open>except Exception\<close> clause
  catches; \<open>str_exn e\<close> is \<open>str(e)\<close>. The interpreter's exit signals (\<open>SystemExit\<close>,
  \<open>KeyboardInterrupt\<close>), which lie outside that class and are not raised by a library
  call on an input, are not modelled.
\<close>

datatype py_exception = Exception (str_exn: string)

text \<open>
  A two-dimensional numpy array: its shape \<open>(nrows, ncols)\<close> and its elements by row
  and column index. \<open>tolist\<close> is \<open>ndarray.tolist()\<close>: one list per row, holding the
  row's elements in column order.
\<close>

datatype 'f ndarray = NDArray (nrows: nat) (ncols: nat) (item: "nat \<Rightarrow> nat \<Rightarrow> 'f")

definition row :: "'f ndarray \<Rightarrow> nat \<Rightarrow> 'f list" where
  "row a i = map (item a i) [0..<ncols a]"

definition tolist :: "'f ndarray \<Rightarrow> 'f list list" where
  "tolist a = map (row a) [0..<nrows a]"

text \<open>
  The \<open>SentenceTransformer\<close> class is a library class, taken as a parameter. What the
  service uses of an instance: its truth value, which for this \<open>torch.nn.Sequential\<close>
  subclass is \<open>len(model) != 0\<close> (the number of its modules), and its \<open>encode\<close> method.
  \<open>encode\<close> is a call into the library: it reads and changes the library's own hidden
  state \<open>'w\<close> (devices, random generators, memory), and either raises or returns an array.
\<close>

record ('f, 'w) SentenceTransformer =
  py_len :: nat
  encode :: "'w \<Rightarrow> string list \<Rightarrow> (py_exception + 'f ndarray) \<times> 'w"

text \<open>\<open>bool(model)\<close> for \<open>model: SentenceTransformer | None\<close>.\<close>

definition truthy :: "('f, 'w) SentenceTransformer option \<Rightarrow> bool" where
  "truthy mo = (case mo of None \<Rightarrow> False | Some m \<Rightarrow> py_len m \<noteq> 0)"

subsection \<open>Logging\<close>

datatype log_level = INFO | ERROR

type_synonym log_record = "log_level \<times> string"

subsection \<open>Request and response models, HTTP errors\<close>

record EmbedRequest =
  texts :: "string list"

record 'f EmbedResponse =
  embeddings :: "'f list list"

record HealthResponse =
  status :: string

datatype HTTPException = HTTPException (status_code: int) (detail: string)

subsection \<open>Process state\<close>

text \<open>
  The module's global \<open>model\<close>, the records written through \<open>logger\<close> (the root level
  is INFO, so both \<open>logger.info\<close> and \<open>logger.error\<close> emit), and the hidden state of
  the model library.
\<close>

record ('f, 'w) service_state =
  model :: "('f, 'w) SentenceTransformer option"
  log_output :: "log_record list"
  world :: 'w

definition logger_info ::
  "string \<Rightarrow> ('f, 'w) service_state \<Rightarrow> ('f, 'w) service_state" where
  "logger_info msg st = st\<lparr>log_output := log_output st @ [(INFO, msg)]\<rparr>"

definition logger_error ::
  "string \<Rightarrow> ('f, 'w) service_state \<Rightarrow> ('f, 'w) service_state" where
  "logger_error msg st = st\<lparr>log_output := log_output st @ [(ERROR, msg)]\<rparr>"

text \<open>The state when the module has been imported: \<open>model = None\<close>, nothing logged.\<close>

definition initial_state :: "'w \<Rightarrow> ('f, 'w) service_state" where
  "initial_state w = \<lparr>model = None, log_output = [], world = w\<rparr>"

subsection \<open>Startup\<close>

text \<open>\<open>os.getenv(key, default)\<close> on the process environment.\<close>

definition os_getenv :: "(string \<rightharpoonup> string) \<Rightarrow> string \<Rightarrow> string \<Rightarrow> string" where
  "os_getenv env key dflt = (case env key of None \<Rightarrow> dflt | Some v \<Rightarrow> v)"

text \<open>The local \<open>model_name\<close> of \<open>startup_event\<close>, read from the environment.\<close>

definition model_name :: "(string \<rightharpoonup> string) \<Rightarrow> string" where
  "model_name env = os_getenv env ''MODEL_NAME'' ''sentence-transformers/all-MiniLM-L6-v2''"

text \<open>
  \<open>startup_event\<close>. The constructor \<open>SentenceTransformer(model_name)\<close> is the library's:
  the parameter \<open>ctor\<close>, which raises or returns an instance. The result is \<open>Inl e\<close> when
  the handler raises \<open>e\<close>, \<open>Inr ()\<close> when it returns.
\<close>

definition startup_event ::
  "(string \<rightharpoonup> string) \<Rightarrow>
   ('w \<Rightarrow> string \<Rightarrow> (py_exception + ('f, 'w) SentenceTransformer) \<times> 'w) \<Rightarrow>
   ('f, 'w) service_state \<Rightarrow> (py_exception + unit) \<times> ('f, 'w) service_state" where
  "startup_event env ctor st =
     (let st1 = logger_info (''Loading model: '' @ model_name env) st
      in case ctor (world st1) (model_name env) of
           (Inr m, w) \<Rightarrow>
             (Inr (), logger_info ''Model loaded successfully'' (st1\<lparr>model := Some m, world := w\<rparr>))
         | (Inl e, w) \<Rightarrow>
             (Inl e, logger_error (''Failed to load model: '' @ str_exn e) (st1\<lparr>world := w\<rparr>)))"

text \<open>
  Modelled from the spec: the HTTP framework's startup protocol, which is not code of
  this repository. It runs the startup handler before it accepts traffic; when the
  handler raises, startup is aborted and no request is ever served (spec, sections 4.1
  and 6); otherwise the process serves requests on the state the handler left.
\<close>

datatype ('f, 'w) process =
    Aborted py_exception "('f, 'w) service_state"
  | Serving "('f, 'w) service_state"

definition launch ::
  "(string \<rightharpoonup> string) \<Rightarrow>
   ('w \<Rightarrow> string \<Rightarrow> (py_exception + ('f, 'w) SentenceTransformer) \<times> 'w) \<Rightarrow>
   'w \<Rightarrow> ('f, 'w) process" where
  "launch env ctor w =
     (case startup_event env ctor (initial_state w) of
        (Inl e, st) \<Rightarrow> Aborted e st
      | (Inr u, st) \<Rightarrow> Serving st)"

definition is_serving :: "('f, 'w) process \<Rightarrow> bool" where
  "is_serving p = (case p of Aborted e st \<Rightarrow> False | Serving st \<Rightarrow> True)"

subsection \<open>Request handlers\<close>

text \<open>
  \<open>embed_texts\<close>. The \<open>try\<close> block holds the call of \<open>model.encode\<close>, \<open>.tolist()\<close> and
  the construction of the response; an exception of the call is logged and turned into
  the 500 error. (On \<open>None\<close> the attribute lookup \<open>model.encode\<close> would raise inside the
  \<open>try\<close>; the first guard excludes it.)
\<close>

definition attribute_error_None :: py_exception where
  "attribute_error_None =
     Exception (CHR 0x27 # ''NoneType'' @ CHR 0x27 # '' object has no attribute '' @
                CHR 0x27 # ''encode'' @ [CHR 0x27])"

definition embed_texts ::
  "('f, 'w) service_state \<Rightarrow> EmbedRequest \<Rightarrow>
   (HTTPException + 'f EmbedResponse) \<times> ('f, 'w) service_state" where
  "embed_texts st request =
     (if \<not> truthy (model st) then
        (Inl (HTTPException 503 ''Model not loaded''), st)
      else if texts request = [] then
        (Inl (HTTPException 400 ''No texts provided''), st)
      else
        (case model st of
           None \<Rightarrow>
             (let e = attribute_error_None in
              (Inl (HTTPException 500 (str_exn e)),
               logger_error (''Embedding error: '' @ str_exn e) st))
         | Some m \<Rightarrow>
             (case encode m (world st) (texts request) of
                (Inr a, w) \<Rightarrow>
                  (Inr \<lparr>embeddings = tolist a\<rparr>, st\<lparr>world := w\<rparr>)
              | (Inl e, w) \<Rightarrow>
                  (Inl (HTTPException 500 (str_exn e)),
                   logger_error (''Embedding error: '' @ str_exn e) (st\<lparr>world := w\<rparr>)))))"

text \<open>\<open>health_check\<close>: reads the global and nothing else.\<close>

definition health_check ::
  "('f, 'w) service_state \<Rightarrow> (HTTPException + HealthResponse) \<times> ('f, 'w) service_state" where
  "health_check st =
     (if truthy (model st) then (Inr \<lparr>status = ''healthy''\<rparr>, st)
      else (Inl (HTTPException 503 ''Model not loaded''), st))"

text \<open>The readiness predicate both handlers test: the truth value of the global.\<close>

definition is_ready :: "('f, 'w) service_state \<Rightarrow> bool" where
  "is_ready st = truthy (model st)"

subsection \<open>Concrete models for the examples\<close>

text \<open>
  A model of dimension 2 that embeds a text as (its length, 1); a model object with no
  modules; a model whose \<open>encode\<close> raises on its first call and succeeds afterwards.
\<close>

definition toy_item :: "string list \<Rightarrow> nat \<Rightarrow> nat \<Rightarrow> nat" where
  "toy_item xs i j = (if j = 0 then (if i < length xs then length (xs ! i) else 0) else 1)"

definition toy_encode :: "nat \<Rightarrow> string list \<Rightarrow> (py_exception + nat ndarray) \<times> nat" where
  "toy_encode w xs = (Inr (NDArray (length xs) 2 (toy_item xs)), Suc w)"

definition toy_model :: "(nat, nat) SentenceTransformer" where
  "toy_model = \<lparr>py_len = 3, encode = toy_encode\<rparr>"

definition empty_model :: "(nat, nat) SentenceTransformer" where
  "empty_model = \<lparr>py_len = 0, encode = toy_encode\<rparr>"

definition flaky_encode :: "nat \<Rightarrow> string list \<Rightarrow> (py_exception + nat ndarray) \<times> nat" where
  "flaky_encode w xs =
     (if w = 0 then (Inl (Exception ''CUDA out of memory''), Suc w) else toy_encode w xs)"

definition flaky_model :: "(nat, nat) SentenceTransformer" where
  "flaky_model = \<lparr>py_len = 3, encode = flaky_encode\<rparr>"





definition loaded :: "(nat, nat) SentenceTransformer \<Rightarrow> (nat, nat) service_state" where
  "loaded m = \<lparr>model = Some m, log_output = [], world = 0\<rparr>"

text \<open>
  A constructor that knows the default model only, one that knows a model of the
  user's only, and one that always raises.
\<close>

definition custom_ctor ::
  "nat \<Rightarrow> string \<Rightarrow> (py_exception + (nat, nat) SentenceTransformer) \<times> nat" where
  "custom_ctor w name =
     (if name = ''my-org/my-model'' then (Inr flaky_model, Suc w)
      else (Inl (Exception ''model not found''), Suc w))"

definition toy_ctor ::
  "nat \<Rightarrow> string \<Rightarrow> (py_exception + (nat, nat) SentenceTransformer) \<times> nat" where
  "toy_ctor w name =
     (if name = ''sentence-transformers/all-MiniLM-L6-v2'' then (Inr toy_model, Suc w)
      else (Inl (Exception ''model not found''), Suc w))"

definition failing_ctor ::
  "nat \<Rightarrow> string \<Rightarrow> (py_exception + (nat, nat) SentenceTransformer) \<times> nat" where
  "failing_ctor w name = (Inl (Exception ''model not found''), Suc w)"

subsection \<open>Assumptions on the model library\<close>

text \<open>
  A deterministic \<open>encode\<close>: what it raises or returns depends on the texts alone, not
  on the library's hidden state.
\<close>

definition deterministic :: "('f, 'w) SentenceTransformer \<Rightarrow> bool" where
  "deterministic m = (\<forall>w w' xs. fst (encode m w xs) = fst (encode m w' xs))"

section \<open>Properties\<close>

subsection \<open>The paths of the embed handler\<close>

lemma embed_texts_encode:
  assumes "model st = Some m" and "py_len m \<noteq> 0" and "texts request \<noteq> []"
  shows "embed_texts st request =
     (case encode m (world st) (texts request) of
        (Inr a, w) \<Rightarrow> (Inr \<lparr>embeddings = tolist a\<rparr>, st\<lparr>world := w\<rparr>)
      | (Inl e, w) \<Rightarrow>
          (Inl (HTTPException 500 (str_exn e)),
           logger_error (''Embedding error: '' @ str_exn e) (st\<lparr>world := w\<rparr>)))"
  using assms by (simp add: embed_texts_def truthy_def)

subsection \<open>Arrays\<close>





lemma tolist_toy_item_1: "tolist (NDArray 1 2 (toy_item [x])) = [[length x, 1]]"
  by (simp add: tolist_def row_def toy_item_def upt_rec)

lemma tolist_toy_item_2:
  "tolist (NDArray 2 2 (toy_item [x, y])) = [[length x, 1], [length y, 1]]"
  by (simp add: tolist_def row_def toy_item_def upt_rec)





text \<open>
  C2. Readiness is checked first, then non-emptiness: while the model is not loaded (or
  otherwise not ready) every request, the empty one included, fails with 503 "Model not
  loaded"; on a ready model an empty request fails with 400 "No texts provided". In both
  cases nothing else happens: the state is returned as it was.
\<close>

theorem embed_texts_validation_order:
  "(model st = None \<longrightarrow>
      embed_texts st request = (Inl (HTTPException 503 ''Model not loaded''), st)) \<and>
   (\<not> is_ready st \<longrightarrow>
      embed_texts st request = (Inl (HTTPException 503 ''Model not loaded''), st)) \<and>
   (is_ready st \<and> texts request = [] \<longrightarrow>
      embed_texts st request = (Inl (HTTPException 400 ''No texts provided''), st))"
  by (simp add: embed_texts_def is_ready_def truthy_def)

theorem embed_texts_validation_order_witness:
  "embed_texts (initial_state (0::nat)) \<lparr>texts = []\<rparr> =
     (Inl (HTTPException 503 ''Model not loaded'') :: HTTPException + nat EmbedResponse,
      initial_state 0) \<and>
   embed_texts (initial_state (0::nat)) \<lparr>texts = [''hello world'']\<rparr> =
     (Inl (HTTPException 503 ''Model not loaded'') :: HTTPException + nat EmbedResponse,
      initial_state 0) \<and>
   embed_texts (loaded empty_model) \<lparr>texts = []\<rparr> =
     (Inl (HTTPException 503 ''Model not loaded''), loaded empty_model) \<and>
   embed_texts (loaded toy_model) \<lparr>texts = []\<rparr> =
     (Inl (HTTPException 400 ''No texts provided''), loaded toy_model)"
proof -
  have n: "model (initial_state (0::nat) :: (nat, nat) service_state) = None"
    by (simp add: initial_state_def)
  have e: "\<not> is_ready (loaded empty_model)"
    by (simp add: is_ready_def truthy_def loaded_def empty_model_def)
  have r: "is_ready (loaded toy_model) \<and> texts \<lparr>texts = []\<rparr> = []"
    by (simp add: is_ready_def truthy_def loaded_def toy_model_def)
  show ?thesis
    using embed_texts_validation_order [of "initial_state 0 :: (nat, nat) service_state" "\<lparr>texts = []\<rparr>"]
      embed_texts_validation_order [of "initial_state 0 :: (nat, nat) service_state" "\<lparr>texts = [''hello world'']\<rparr>"]
      embed_texts_validation_order [of "loaded empty_model" "\<lparr>texts = []\<rparr>"]
      embed_texts_validation_order [of "loaded toy_model" "\<lparr>texts = []\<rparr>"]
      n e r
    by simp
qed

text \<open>
  C3, as stated, says the empty request fails with 400 whatever the readiness. Before
  the model is loaded the readiness guard comes first and the answer is 503.
\<close>

theorem embed_texts_empty_not_loaded_counterexample:
  "fst (embed_texts (initial_state (0::nat) :: (nat, nat) service_state) \<lparr>texts = []\<rparr>) \<noteq>
     Inl (HTTPException 400 ''No texts provided'') \<and>
   fst (embed_texts (initial_state (0::nat) :: (nat, nat) service_state) \<lparr>texts = []\<rparr>) =
     Inl (HTTPException 503 ''Model not loaded'')"
  by (simp add: embed_texts_def initial_state_def truthy_def)

text \<open>
  C3, amended. The empty request always fails: with 400 "No texts provided" when the
  model is ready, with 503 "Model not loaded" when it is not.
\<close>

theorem embed_texts_empty_by_readiness:
  "embed_texts st \<lparr>texts = []\<rparr> =
     (Inl (if is_ready st then HTTPException 400 ''No texts provided''
           else HTTPException 503 ''Model not loaded''), st)"
  by (simp add: embed_texts_def is_ready_def)

text \<open>
  C4. When the call of \<open>encode\<close> raises \<open>e\<close>, \<open>embed_texts\<close> fails with status 500 and
  detail \<open>str(e)\<close>, unchanged; it logs the error, and the library has been called exactly
  once: its state is the one that single call left.
\<close>

theorem embed_texts_inference_error:
  assumes "is_ready st" and "model st = Some m" and "texts request \<noteq> []"
    and "encode m (world st) (texts request) = (Inl e, w)"
  shows "embed_texts st request =
           (Inl (HTTPException 500 (str_exn e)),
            st\<lparr>log_output := log_output st @ [(ERROR, ''Embedding error: '' @ str_exn e)],
               world := w\<rparr>)"
proof -
  have "py_len m \<noteq> 0"
    using assms(1,2) by (simp add: is_ready_def truthy_def)
  then show ?thesis
    using assms(2,3,4) by (simp add: embed_texts_encode logger_error_def)
qed

theorem embed_texts_inference_error_witness:
  "embed_texts (loaded flaky_model) \<lparr>texts = [''a'']\<rparr> =
     (Inl (HTTPException 500 ''CUDA out of memory''),
      \<lparr>model = Some flaky_model,
       log_output = [(ERROR, ''Embedding error: CUDA out of memory'')],
       world = 1\<rparr>) \<and>
   fst (encode flaky_model 1 [''a'']) = Inr (NDArray 1 2 (toy_item [''a'']))"
proof -
  let ?st = "loaded flaky_model"
  let ?rq = "\<lparr>texts = [''a'']\<rparr>"
  have h1: "is_ready ?st"
    by (simp add: is_ready_def truthy_def loaded_def flaky_model_def)
  have h2: "model ?st = Some flaky_model"
    by (simp add: loaded_def)
  have h3: "texts ?rq \<noteq> []"
    by simp
  have h4: "encode flaky_model (world ?st) (texts ?rq) = (Inl (Exception ''CUDA out of memory''), 1)"
    by (simp add: flaky_model_def flaky_encode_def loaded_def)
  have retry: "fst (encode flaky_model 1 [''a'']) = Inr (NDArray 1 2 (toy_item [''a'']))"
    by (simp add: flaky_model_def flaky_encode_def toy_encode_def)
  show ?thesis
    using embed_texts_inference_error [OF h1 h2 h3 h4] retry by (simp add: loaded_def)
qed

text \<open>
  C5. \<open>health_check\<close> returns status "healthy" if and only if the model is ready, and
  fails with 503 "Model not loaded" otherwise; it looks at nothing else and leaves the
  state as it was.
\<close>

theorem health_check_iff_ready:
  "health_check st =
     (if is_ready st then (Inr \<lparr>status = ''healthy''\<rparr>, st)
      else (Inl (HTTPException 503 ''Model not loaded''), st)) \<and>
   (fst (health_check st) = Inr \<lparr>status = ''healthy''\<rparr>) = is_ready st \<and>
   (fst (health_check st) = Inl (HTTPException 503 ''Model not loaded'')) = (\<not> is_ready st)"
  by (simp add: health_check_def is_ready_def)

lemma startup_event_raises:
  assumes "ctor (world st) (model_name env) = (Inl e, w)"
  shows "startup_event env ctor st =
           (Inl e,
            st\<lparr>log_output := log_output st @
                   [(INFO, ''Loading model: '' @ model_name env),
                    (ERROR, ''Failed to load model: '' @ str_exn e)],
               world := w\<rparr>)"
  using assms by (simp add: startup_event_def logger_info_def logger_error_def)

lemma startup_event_returns:
  assumes "ctor (world st) (model_name env) = (Inr m, w)"
  shows "startup_event env ctor st =
           (Inr (),
            st\<lparr>model := Some m,
               log_output := log_output st @
                   [(INFO, ''Loading model: '' @ model_name env),
                    (INFO, ''Model loaded successfully'')],
               world := w\<rparr>)"
  using assms by (simp add: startup_event_def logger_info_def)

text \<open>
  C6. When the constructor raises \<open>e\<close>, \<open>startup_event\<close> logs "Failed to load model: "
  followed by \<open>str(e)\<close> and raises the same \<open>e\<close>; the global \<open>model\<close> is not assigned.
  Launched from the module's initial state, the process is aborted with \<open>model = None\<close>
  and never serves.
\<close>

theorem startup_event_fails_fast:
  "(ctor (world st) (model_name env) = (Inl e, w) \<longrightarrow>
      fst (startup_event env ctor st) = Inl e \<and>
      model (snd (startup_event env ctor st)) = model st \<and>
      log_output (snd (startup_event env ctor st)) =
        log_output st @ [(INFO, ''Loading model: '' @ model_name env),
                         (ERROR, ''Failed to load model: '' @ str_exn e)]) \<and>
   (ctor w0 (model_name env) = (Inl e, w) \<longrightarrow>
      launch env ctor w0 =
        Aborted e \<lparr>model = None,
                   log_output = [(INFO, ''Loading model: '' @ model_name env),
                                 (ERROR, ''Failed to load model: '' @ str_exn e)],
                   world = w\<rparr> \<and>
      \<not> is_serving (launch env ctor w0))"
proof -
  have "world (initial_state w0 :: ('a, 'b) service_state) = w0"
    by (simp add: initial_state_def)
  then have "ctor w0 (model_name env) = (Inl e, w) \<Longrightarrow>
      startup_event env ctor (initial_state w0) =
        (Inl e, \<lparr>model = None,
                 log_output = [(INFO, ''Loading model: '' @ model_name env),
                               (ERROR, ''Failed to load model: '' @ str_exn e)],
                 world = w\<rparr>)"
    by (simp add: startup_event_raises) (simp add: initial_state_def)
  then show ?thesis
    by (simp add: startup_event_raises launch_def is_serving_def)
qed

theorem startup_event_fails_fast_witness:
  "fst (startup_event Map.empty failing_ctor (loaded toy_model)) =
     Inl (Exception ''model not found'') \<and>
   model (snd (startup_event Map.empty failing_ctor (loaded toy_model))) = Some toy_model \<and>
   launch [''MODEL_NAME'' \<mapsto> ''no/such-model''] toy_ctor 0 =
     Aborted (Exception ''model not found'')
       \<lparr>model = None,
        log_output = [(INFO, ''Loading model: no/such-model''),
                      (ERROR, ''Failed to load model: model not found'')],
        world = 1\<rparr> \<and>
   \<not> is_serving (launch [''MODEL_NAME'' \<mapsto> ''no/such-model''] toy_ctor 0)"
proof -
  have h1: "failing_ctor (world (loaded toy_model)) (model_name Map.empty) =
              (Inl (Exception ''model not found''), 1)"
    by (simp add: failing_ctor_def loaded_def)
  have n: "model_name [''MODEL_NAME'' \<mapsto> ''no/such-model''] = ''no/such-model''"
    by (simp add: model_name_def os_getenv_def)
  have h2: "toy_ctor 0 (model_name [''MODEL_NAME'' \<mapsto> ''no/such-model'']) =
              (Inl (Exception ''model not found''), 1)"
    by (simp add: n toy_ctor_def)
  show ?thesis
    using startup_event_fails_fast [of failing_ctor "loaded toy_model" Map.empty
        "Exception ''model not found''" 1 0]
      startup_event_fails_fast [of toy_ctor "loaded toy_model"
        "[''MODEL_NAME'' \<mapsto> ''no/such-model'']" "Exception ''model not found''" 1 0]
      h1 h2 n
    by (simp add: loaded_def is_serving_def)
qed

lemma model_name_set: "env ''MODEL_NAME'' = Some v \<Longrightarrow> model_name env = v"
  by (simp add: model_name_def os_getenv_def)

lemma model_name_absent:
  "env ''MODEL_NAME'' = None \<Longrightarrow> model_name env = ''sentence-transformers/all-MiniLM-L6-v2''"
  by (simp add: model_name_def os_getenv_def)

lemma startup_event_logs_name:
  "(INFO, ''Loading model: '' @ model_name env) \<in> set (log_output (snd (startup_event env ctor st)))"
proof (cases "ctor (world st) (model_name env)")
  case (Pair r w)
  then show ?thesis
    by (cases r) (simp_all add: startup_event_raises startup_event_returns)
qed

lemma startup_event_outcome:
  "(ctor (world st) (model_name env) = (Inr m, w) \<longrightarrow>
      fst (startup_event env ctor st) = Inr () \<and>
      model (snd (startup_event env ctor st)) = Some m) \<and>
   (ctor (world st) (model_name env) = (Inl e, w) \<longrightarrow>
      fst (startup_event env ctor st) = Inl e)"
  by (simp add: startup_event_raises startup_event_returns)

text \<open>
  C7. The identifier handed to the constructor, and logged, is the value of the
  environment variable MODEL_NAME when it is set, and
  "sentence-transformers/all-MiniLM-L6-v2" when it is absent: startup succeeds with the
  model the constructor returns for that identifier and raises what the constructor
  raises for it. Startup reads no other variable.
\<close>

theorem startup_event_model_name_default:
  "(env ''MODEL_NAME'' = Some v \<longrightarrow>
      (INFO, ''Loading model: '' @ v) \<in> set (log_output (snd (startup_event env ctor st))) \<and>
      (\<forall>m w. ctor (world st) v = (Inr m, w) \<longrightarrow>
         fst (startup_event env ctor st) = Inr () \<and>
         model (snd (startup_event env ctor st)) = Some m) \<and>
      (\<forall>e w. ctor (world st) v = (Inl e, w) \<longrightarrow>
         fst (startup_event env ctor st) = Inl e)) \<and>
   (env ''MODEL_NAME'' = None \<longrightarrow>
      (INFO, ''Loading model: sentence-transformers/all-MiniLM-L6-v2'')
        \<in> set (log_output (snd (startup_event env ctor st))) \<and>
      (\<forall>m w. ctor (world st) ''sentence-transformers/all-MiniLM-L6-v2'' = (Inr m, w) \<longrightarrow>
         fst (startup_event env ctor st) = Inr () \<and>
         model (snd (startup_event env ctor st)) = Some m) \<and>
      (\<forall>e w. ctor (world st) ''sentence-transformers/all-MiniLM-L6-v2'' = (Inl e, w) \<longrightarrow>
         fst (startup_event env ctor st) = Inl e) \<and>
      startup_event env ctor st =
        startup_event [''MODEL_NAME'' \<mapsto> ''sentence-transformers/all-MiniLM-L6-v2''] ctor st) \<and>
   (env ''MODEL_NAME'' = env' ''MODEL_NAME'' \<longrightarrow>
      startup_event env ctor st = startup_event env' ctor st)"
proof -
  have same: "startup_event env ctor st = startup_event env'' ctor st"
    if "model_name env = model_name env''" for env''
    using that by (simp add: startup_event_def)
  have s: ?thesis if v: "env ''MODEL_NAME'' = Some v" for v
  proof -
    have n: "model_name env = v"
      using v by (rule model_name_set)
    have "env' ''MODEL_NAME'' = Some v \<Longrightarrow> model_name env = model_name env'"
      by (simp add: n model_name_set)
    then show ?thesis
      using v n startup_event_logs_name [of env ctor st] startup_event_outcome [of ctor st env]
        same [of env']
      by auto
  qed
  have a: ?thesis if v: "env ''MODEL_NAME'' = None"
  proof -
    have n: "model_name env = ''sentence-transformers/all-MiniLM-L6-v2''"
      using v by (rule model_name_absent)
    have d: "model_name [''MODEL_NAME'' \<mapsto> ''sentence-transformers/all-MiniLM-L6-v2''] =
               model_name env"
      by (simp add: n model_name_set)
    have "env' ''MODEL_NAME'' = None \<Longrightarrow> model_name env = model_name env'"
      by (simp add: n model_name_absent)
    then show ?thesis
      using v n startup_event_logs_name [of env ctor st] startup_event_outcome [of ctor st env]
        same [of env'] same [OF d [symmetric]]
      by auto
  qed
  show ?thesis
    using s a by (cases "env ''MODEL_NAME''") auto
qed

theorem startup_event_model_name_default_witness:
  "fst (startup_event [''MODEL_NAME'' \<mapsto> ''my-org/my-model''] custom_ctor (initial_state 0)) =
     Inr () \<and>
   model (snd (startup_event [''MODEL_NAME'' \<mapsto> ''my-org/my-model''] custom_ctor
                 (initial_state 0))) = Some flaky_model \<and>
   (INFO, ''Loading model: my-org/my-model'') \<in>
     set (log_output (snd (startup_event [''MODEL_NAME'' \<mapsto> ''my-org/my-model''] custom_ctor
                             (initial_state 0)))) \<and>
   fst (startup_event [''MODEL_NAME'' \<mapsto> ''no/such-model''] toy_ctor (initial_state 0)) =
     Inl (Exception ''model not found'') \<and>
   fst (startup_event Map.empty toy_ctor (initial_state 0)) = Inr () \<and>
   model (snd (startup_event Map.empty toy_ctor (initial_state 0))) = Some toy_model \<and>
   fst (startup_event Map.empty custom_ctor (initial_state 0)) =
     Inl (Exception ''model not found'') \<and>
   startup_event [''HOME'' \<mapsto> ''/root''] toy_ctor (initial_state 0) =
     startup_event Map.empty toy_ctor (initial_state 0)"
proof -
  let ?st = "initial_state 0 :: (nat, nat) service_state"
  let ?mine = "[''MODEL_NAME'' \<mapsto> ''my-org/my-model'']"
  let ?none = "[''MODEL_NAME'' \<mapsto> ''no/such-model'']"
  let ?home = "[''HOME'' \<mapsto> ''/root'']"
  have w: "world ?st = 0"
    by (simp add: initial_state_def)
  have s1: "?mine ''MODEL_NAME'' = Some ''my-org/my-model''"
    by simp
  have c1: "custom_ctor (world ?st) ''my-org/my-model'' = (Inr flaky_model, 1)"
    by (simp add: w custom_ctor_def)
  have s2: "?none ''MODEL_NAME'' = Some ''no/such-model''"
    by simp
  have c2: "toy_ctor (world ?st) ''no/such-model'' = (Inl (Exception ''model not found''), 1)"
    by (simp add: w toy_ctor_def)
  have s3: "(Map.empty :: string \<rightharpoonup> string) ''MODEL_NAME'' = None"
    by simp
  have c3: "toy_ctor (world ?st) ''sentence-transformers/all-MiniLM-L6-v2'' = (Inr toy_model, 1)"
    by (simp add: w toy_ctor_def)
  have c4: "custom_ctor (world ?st) ''sentence-transformers/all-MiniLM-L6-v2'' =
              (Inl (Exception ''model not found''), 1)"
    by (simp add: w custom_ctor_def)
  have s5: "?home ''MODEL_NAME'' = (Map.empty :: string \<rightharpoonup> string) ''MODEL_NAME''"
    by simp
  note t1 = startup_event_model_name_default
      [of ?mine "''my-org/my-model''" custom_ctor ?st ?mine]
  note t2 = startup_event_model_name_default
      [of ?none "''no/such-model''" toy_ctor ?st ?none]
  note t3 = startup_event_model_name_default [of Map.empty "''x''" toy_ctor ?st Map.empty]
  note t4 = startup_event_model_name_default [of Map.empty "''x''" custom_ctor ?st Map.empty]
  note t5 = startup_event_model_name_default [of ?home "''x''" toy_ctor ?st Map.empty]
  have a1: "fst (startup_event ?mine custom_ctor ?st) = Inr () \<and>
            model (snd (startup_event ?mine custom_ctor ?st)) = Some flaky_model \<and>
            (INFO, ''Loading model: my-org/my-model'') \<in>
              set (log_output (snd (startup_event ?mine custom_ctor ?st)))"
    using t1 s1 c1 by simp
  have a2: "fst (startup_event ?none toy_ctor ?st) = Inl (Exception ''model not found'')"
    using t2 s2 c2 by blast
  have a3: "fst (startup_event Map.empty toy_ctor ?st) = Inr () \<and>
            model (snd (startup_event Map.empty toy_ctor ?st)) = Some toy_model"
    using t3 s3 c3 by blast
  have a4: "fst (startup_event Map.empty custom_ctor ?st) = Inl (Exception ''model not found'')"
    using t4 s3 c4 by blast
  have a5: "startup_event ?home toy_ctor ?st = startup_event Map.empty toy_ctor ?st"
    using t5 s5 by blast
  show ?thesis
    using a1 a2 a3 a4 a5 by blast
qed

lemma embed_texts_cases:
  obtains
    (not_ready) "\<not> truthy (model st)"
      "embed_texts st request = (Inl (HTTPException 503 ''Model not loaded''), st)"
  | (no_texts) "truthy (model st)" "texts request = []"
      "embed_texts st request = (Inl (HTTPException 400 ''No texts provided''), st)"
  | (encoded) m a w where "truthy (model st)" "texts request \<noteq> []" "model st = Some m"
      "encode m (world st) (texts request) = (Inr a, w)"
      "embed_texts st request = (Inr \<lparr>embeddings = tolist a\<rparr>, st\<lparr>world := w\<rparr>)"
  | (raised) m e w where "truthy (model st)" "texts request \<noteq> []" "model st = Some m"
      "encode m (world st) (texts request) = (Inl e, w)"
      "embed_texts st request =
         (Inl (HTTPException 500 (str_exn e)),
          st\<lparr>log_output := log_output st @ [(ERROR, ''Embedding error: '' @ str_exn e)],
             world := w\<rparr>)"
proof (cases "truthy (model st)")
  case False
  then show ?thesis
    using not_ready by (simp add: embed_texts_def)
next
  case ready: True
  show ?thesis
  proof (cases "texts request = []")
    case True
    then show ?thesis
      using ready no_texts by (simp add: embed_texts_def)
  next
    case nonempty: False
    from ready obtain m where m: "model st = Some m" and len: "py_len m \<noteq> 0"
      by (auto simp: truthy_def split: option.splits)
    obtain r w where enc: "encode m (world st) (texts request) = (r, w)"
      by (cases "encode m (world st) (texts request)")
    show ?thesis
    proof (cases r)
      case (Inl e)
      then show ?thesis
        using raised [of m e w] ready nonempty m len enc
        by (simp add: embed_texts_encode logger_error_def)
    next
      case (Inr a)
      then show ?thesis
        using encoded [of m a w] ready nonempty m len enc
        by (simp add: embed_texts_encode)
    qed
  qed
qed

lemma embed_texts_model:
  "model (snd (embed_texts st request)) = model st"
  by (rule embed_texts_cases [of st request]) simp_all

lemma embed_texts_result_same_model:
  assumes "deterministic m" and "model st = Some m" and "model st' = Some m"
  shows "fst (embed_texts st' request) = fst (embed_texts st request)"
proof (cases "py_len m \<noteq> 0 \<and> texts request \<noteq> []")
  case True
  have eq: "fst (encode m (world st') (texts request)) = fst (encode m (world st) (texts request))"
    using assms(1) by (simp add: deterministic_def)
  obtain r w where e: "encode m (world st) (texts request) = (r, w)"
    by (cases "encode m (world st) (texts request)")
  obtain r' w' where e': "encode m (world st') (texts request) = (r', w')"
    by (cases "encode m (world st') (texts request)")
  have "r' = r"
    using eq e e' by simp
  then show ?thesis
    using True assms(2,3) e e' by (cases r) (simp_all add: embed_texts_encode)
next
  case False
  then show ?thesis
    using assms(2,3) by (auto simp: embed_texts_def truthy_def)
qed

text \<open>
  C8. With a deterministic \<open>encode\<close>, a second call of \<open>embed_texts\<close> with the same
  request gives the same result as the first, and so does a call in any state holding
  the same model.
\<close>

theorem embed_texts_deterministic:
  assumes "deterministic m" and "model st = Some m"
  shows "fst (embed_texts (snd (embed_texts st request)) request) = fst (embed_texts st request) \<and>
         (\<forall>st'. model st' = Some m \<longrightarrow>
            fst (embed_texts st' request) = fst (embed_texts st request))"
proof -
  have "model (snd (embed_texts st request)) = Some m"
    using assms(2) by (simp add: embed_texts_model)
  then have "fst (embed_texts (snd (embed_texts st request)) request) =
             fst (embed_texts st request)"
    using assms by (rule embed_texts_result_same_model [rotated 2])
  moreover have "fst (embed_texts st' request) = fst (embed_texts st request)"
    if "model st' = Some m" for st'
    using assms that by (rule embed_texts_result_same_model)
  ultimately show ?thesis
    by blast
qed

lemma deterministic_toy_model: "deterministic toy_model"
  by (simp add: deterministic_def toy_model_def toy_encode_def)

lemma embed_texts_toy_two:
  "embed_texts (loaded toy_model) \<lparr>texts = [''a'', ''bc'']\<rparr> =
     (Inr \<lparr>embeddings = [[1, 1], [2, 1]]\<rparr>, \<lparr>model = Some toy_model, log_output = [], world = 1\<rparr>)"
proof -
  have "encode toy_model 0 [''a'', ''bc''] = (Inr (NDArray 2 2 (toy_item [''a'', ''bc''])), 1)"
    by (simp add: toy_model_def toy_encode_def)
  moreover have "tolist (NDArray 2 2 (toy_item [''a'', ''bc''])) = [[1, 1], [2, 1]]"
    by (simp add: tolist_toy_item_2)
  moreover have "py_len toy_model \<noteq> 0"
    by (simp add: toy_model_def)
  ultimately show ?thesis
    by (simp add: embed_texts_encode [of _ toy_model] loaded_def)
qed

theorem embed_texts_deterministic_witness:
  "deterministic toy_model \<and>
   fst (embed_texts (loaded toy_model) \<lparr>texts = [''a'', ''bc'']\<rparr>) =
     Inr \<lparr>embeddings = [[1, 1], [2, 1]]\<rparr> \<and>
   fst (embed_texts (snd (embed_texts (loaded toy_model) \<lparr>texts = [''a'', ''bc'']\<rparr>))
          \<lparr>texts = [''a'', ''bc'']\<rparr>) =
     Inr \<lparr>embeddings = [[1, 1], [2, 1]]\<rparr>"
proof -
  have m: "model (loaded toy_model) = Some toy_model"
    by (simp add: loaded_def)
  have v: "fst (embed_texts (loaded toy_model) \<lparr>texts = [''a'', ''bc'']\<rparr>) =
             Inr \<lparr>embeddings = [[1, 1], [2, 1]]\<rparr>"
    by (simp add: embed_texts_toy_two)
  from embed_texts_deterministic [OF deterministic_toy_model m, of "\<lparr>texts = [''a'', ''bc'']\<rparr>"]
  have "fst (embed_texts (snd (embed_texts (loaded toy_model) \<lparr>texts = [''a'', ''bc'']\<rparr>))
          \<lparr>texts = [''a'', ''bc'']\<rparr>) =
        fst (embed_texts (loaded toy_model) \<lparr>texts = [''a'', ''bc'']\<rparr>)"
    by blast
  then show ?thesis
    using deterministic_toy_model v by simp
qed

lemma embed_texts_flaky_first:
  "embed_texts (loaded flaky_model) \<lparr>texts = [''a'']\<rparr> =
     (Inl (HTTPException 500 ''CUDA out of memory''),
      \<lparr>model = Some flaky_model,
       log_output = [(ERROR, ''Embedding error: CUDA out of memory'')],
       world = 1\<rparr>)"
proof -
  have "encode flaky_model 0 [''a''] = (Inl (Exception ''CUDA out of memory''), 1)"
    by (simp add: flaky_model_def flaky_encode_def)
  moreover have "py_len flaky_model \<noteq> 0"
    by (simp add: flaky_model_def)
  ultimately show ?thesis
    by (simp add: embed_texts_encode [of _ flaky_model] loaded_def logger_error_def)
qed

lemma embed_texts_flaky_second:
  "fst (embed_texts \<lparr>model = Some flaky_model,
                     log_output = [(ERROR, ''Embedding error: CUDA out of memory'')],
                     world = 1\<rparr> \<lparr>texts = [''a'']\<rparr>) =
     Inr \<lparr>embeddings = [[1, 1]]\<rparr>"
proof -
  have "encode flaky_model 1 [''a''] = (Inr (NDArray 1 2 (toy_item [''a''])), 2)"
    by (simp add: flaky_model_def flaky_encode_def toy_encode_def)
  moreover have "tolist (NDArray 1 2 (toy_item [''a''])) = [[1, 1]]"
    using tolist_toy_item_1 [of "''a''"] by simp
  moreover have "py_len flaky_model \<noteq> 0"
    by (simp add: flaky_model_def)
  ultimately show ?thesis
    by (simp add: embed_texts_encode [of _ flaky_model])
qed

lemma flaky_model_not_deterministic:
  "\<not> deterministic flaky_model \<and>
   fst (embed_texts (snd (embed_texts (loaded flaky_model) \<lparr>texts = [''a'']\<rparr>))
          \<lparr>texts = [''a'']\<rparr>) \<noteq>
   fst (embed_texts (loaded flaky_model) \<lparr>texts = [''a'']\<rparr>)"
proof -
  have "fst (encode flaky_model 0 []) \<noteq> fst (encode flaky_model 1 [])"
    by (simp add: flaky_model_def flaky_encode_def toy_encode_def)
  then have "\<not> deterministic flaky_model"
    unfolding deterministic_def by blast
  then show ?thesis
    unfolding embed_texts_flaky_first snd_conv fst_conv embed_texts_flaky_second by simp
qed

text \<open>
  C9. Neither handler assigns the global \<open>model\<close>. \<open>embed_texts\<close> changes nothing of
  the state but the log and the library's hidden state; it logs exactly on the 500 path,
  one ERROR record; unless the request reaches the call of \<open>encode\<close>, the state is
  returned as it was. \<open>health_check\<close> returns the state as it was.
\<close>

theorem handlers_leave_model_unchanged:
  "model (snd (embed_texts st request)) = model st \<and>
   (snd (embed_texts st request))\<lparr>log_output := log_output st, world := world st\<rparr> = st \<and>
   log_output (snd (embed_texts st request)) =
     log_output st @
       (case fst (embed_texts st request) of
          Inr r \<Rightarrow> []
        | Inl h \<Rightarrow> if status_code h = 500 then [(ERROR, ''Embedding error: '' @ detail h)]
                   else []) \<and>
   (if is_ready st \<and> texts request \<noteq> [] then True else snd (embed_texts st request) = st) \<and>
   snd (health_check st) = st"
proof -
  have a: "model (snd (embed_texts st request)) = model st"
    by (simp add: embed_texts_model)
  have b: "(snd (embed_texts st request))\<lparr>log_output := log_output st, world := world st\<rparr> = st"
    by (rule embed_texts_cases [of st request]) simp_all
  have c: "log_output (snd (embed_texts st request)) =
     log_output st @
       (case fst (embed_texts st request) of
          Inr r \<Rightarrow> []
        | Inl h \<Rightarrow> if status_code h = 500 then [(ERROR, ''Embedding error: '' @ detail h)]
                   else [])"
    by (rule embed_texts_cases [of st request]) simp_all
  have d: "(if is_ready st \<and> texts request \<noteq> [] then True else snd (embed_texts st request) = st)"
    by (simp add: embed_texts_def is_ready_def)
  have e: "snd (health_check st) = st"
    by (simp add: health_check_def)
  show ?thesis
    using a b c d e by blast
qed

text \<open>
  C10. Readiness is the truth value of the global \<open>model\<close>: on any falsy value, \<open>None\<close>
  or a model object of length zero, both \<open>embed_texts\<close> and \<open>health_check\<close> fail with
  503 "Model not loaded".
\<close>

theorem falsy_model_is_not_ready:
  "(\<not> truthy (model st) \<longrightarrow>
      fst (embed_texts st request) = Inl (HTTPException 503 ''Model not loaded'') \<and>
      fst (health_check st) = Inl (HTTPException 503 ''Model not loaded'')) \<and>
   (model st = Some m \<and> py_len m = 0 \<longrightarrow>
      \<not> truthy (model st) \<and>
      fst (embed_texts st request) = Inl (HTTPException 503 ''Model not loaded'') \<and>
      fst (health_check st) = Inl (HTTPException 503 ''Model not loaded''))"
  by (simp add: embed_texts_def health_check_def truthy_def)

theorem falsy_model_is_not_ready_witness:
  "model (loaded empty_model) \<noteq> None \<and>
   fst (embed_texts (loaded empty_model) \<lparr>texts = [''hello world'']\<rparr>) =
     Inl (HTTPException 503 ''Model not loaded'') \<and>
   fst (health_check (loaded empty_model)) = Inl (HTTPException 503 ''Model not loaded'')"
proof -
  have h: "model (loaded empty_model) = Some empty_model \<and> py_len empty_model = 0"
    by (simp add: loaded_def empty_model_def)
  show ?thesis
    using falsy_model_is_not_ready [of "loaded empty_model" "\<lparr>texts = [''hello world'']\<rparr>" empty_model] h
    by simp
qed

end
